theory Spec2Isabelle
  imports Main "HOL-Library.Sublist"
begin

section \<open>Python values, strings and paths\<close>

text \<open>
  The executor of \<^verbatim>\<open>agentloop/actions/executor.py\<close> is embedded function by function.
  A Python \<^verbatim>\<open>str\<close> is a \<open>string\<close> whose characters are the code points U+0000 to
  U+00FF; an \<^verbatim>\<open>int\<close> is an \<open>int\<close>; a value of type \<^verbatim>\<open>Any\<close> is a \<open>pyval\<close>; a
  \<^verbatim>\<open>Dict[str, Any]\<close> argument is a map, a dict literal an association list in the
  order it is written.
\<close>

datatype pyval =
    PNone
  | PBool bool
  | PInt int
  | PStr string
  | PList "pyval list"
  | PDict "(string \<times> pyval) list"

type_synonym raw = "string \<rightharpoonup> pyval"

text \<open>
  \<^verbatim>\<open>str.isspace\<close> on the code points below U+0100: the characters that
  \<^verbatim>\<open>str.strip()\<close> removes from both ends.
\<close>

definition py_isspace :: "char \<Rightarrow> bool" where
  "py_isspace c =
     (let n = (of_char c :: nat)
      in (9 \<le> n \<and> n \<le> 13) \<or> (28 \<le> n \<and> n \<le> 32) \<or> n = 133 \<or> n = 160)"

definition strip :: "string \<Rightarrow> string" where
  "strip s = rev (dropWhile py_isspace (rev (dropWhile py_isspace s)))"

text \<open>\<^verbatim>\<open>len(s.encode("utf-8"))\<close>: one byte below U+0080, two bytes up to U+00FF.\<close>

definition utf8_len :: "string \<Rightarrow> nat" where
  "utf8_len s = sum_list (map (\<lambda>c. if (of_char c :: nat) < 128 then 1 else 2) s)"

text \<open>\<^verbatim>\<open>str(n)\<close> for an integer: decimal digits, with a minus sign below zero.\<close>

definition digit_char :: "nat \<Rightarrow> char" where
  "digit_char d = char_of (48 + d)"

function str_nat :: "nat \<Rightarrow> string" where
  "str_nat n = (if n < 10 then [digit_char n] else str_nat (n div 10) @ [digit_char (n mod 10)])"
  by pat_completeness auto
termination
  by (relation "measure (\<lambda>n. n)") auto

declare str_nat.simps [simp del]

definition str_int :: "int \<Rightarrow> string" where
  "str_int i = (if i < 0 then CHR ''-'' # str_nat (nat (- i)) else str_nat (nat i))"

text \<open>\<^verbatim>\<open>xs[:n]\<close>: a negative bound counts from the end of the list.\<close>

definition py_slice_upto :: "'a list \<Rightarrow> int \<Rightarrow> 'a list" where
  "py_slice_upto xs n =
     (if 0 \<le> n then take (nat n) xs else take (length xs - nat (- n)) xs)"

text \<open>\<^verbatim>\<open>s.split(sep)\<close> for a one-character separator, and \<^verbatim>\<open>sep.join(xs)\<close>.\<close>

fun split_str :: "char \<Rightarrow> string \<Rightarrow> string list" where
  "split_str sep [] = [[]]"
| "split_str sep (c # cs) =
     (if c = sep then [] # split_str sep cs
      else (case split_str sep cs of
              [] \<Rightarrow> [[c]]
            | w # ws \<Rightarrow> (c # w) # ws))"

fun join_str :: "string \<Rightarrow> string list \<Rightarrow> string" where
  "join_str sep [] = []"
| "join_str sep [x] = x"
| "join_str sep (x # y # ys) = x @ sep @ join_str sep (y # ys)"

text \<open>
  \<^verbatim>\<open>pathlib.Path\<close> on a POSIX system: a root (empty, one slash or two slashes) and the
  components, where empty components and \<^verbatim>\<open>.\<close> are dropped on parsing.
\<close>

record PurePath =
  root :: string
  parts :: "string list"

definition posix_root :: "string \<Rightarrow> string" where
  "posix_root s =
     (if take 1 s = ''/'' then
        (if take 2 s = ''//'' \<and> take 3 s \<noteq> ''///'' then ''//'' else ''/'')
      else [])"

definition Path :: "string \<Rightarrow> PurePath" where
  "Path s = \<lparr>root = posix_root s,
            parts = filter (\<lambda>p. p \<noteq> [] \<and> p \<noteq> ''.'') (split_str CHR ''/'' s)\<rparr>"

text \<open>\<^verbatim>\<open>Path.name\<close>: the last component, empty when there is none.\<close>

definition path_name :: "PurePath \<Rightarrow> string" where
  "path_name p = (if parts p = [] then [] else last (parts p))"

text \<open>\<^verbatim>\<open>path / segment\<close>: an absolute segment replaces the path.\<close>

definition joinpath :: "PurePath \<Rightarrow> string \<Rightarrow> PurePath" where
  "joinpath p s =
     (let q = Path s
      in if root q \<noteq> [] then q else \<lparr>root = root p, parts = parts p @ parts q\<rparr>)"

definition str_path :: "PurePath \<Rightarrow> string" where
  "str_path p =
     (if root p = [] \<and> parts p = [] then ''.'' else root p @ join_str ''/'' (parts p))"

section \<open>Schemas\<close>

text \<open>
  Modelled from the spec: the declarations of \<^verbatim>\<open>agentloop/core/schemas\<close>
  (\<^verbatim>\<open>ActionType\<close>, \<^verbatim>\<open>ActionResult\<close> and the four input structures) are imported by
  the executor and are not part of its source file. \<open>ActionType\<close> is the enumeration
  of the four kinds; a value outside it is \<open>UNKNOWN\<close> carrying the identifier that
  formatting it prints. \<open>ActionResult\<close> has the fields the executor passes, and a field
  it omits is absent (\<open>PNone\<close>, \<open>None\<close>). The timeout of \<open>RunCodeInput\<close> is a number
  of seconds whose type \<open>'t\<close> is left open.
\<close>

datatype ActionType = SEARCH_WEB | RUN_CODE | WRITE_FILE | FINISH | UNKNOWN string

fun format_ActionType :: "ActionType \<Rightarrow> string" where
  "format_ActionType SEARCH_WEB = ''ActionType.SEARCH_WEB''"
| "format_ActionType RUN_CODE = ''ActionType.RUN_CODE''"
| "format_ActionType WRITE_FILE = ''ActionType.WRITE_FILE''"
| "format_ActionType FINISH = ''ActionType.FINISH''"
| "format_ActionType (UNKNOWN ident) = ident"

record ActionResult =
  action :: ActionType
  success :: bool
  output_value :: pyval
  error :: "string option"
  metadata :: "(string \<times> pyval) list option"

record SearchWebInput =
  query :: string
  num_results :: int

record 't RunCodeInput =
  code :: string
  timeout :: 't

record WriteFileInput =
  filename :: string
  content :: string

record FinishInput =
  summary :: string
  artifacts :: "string list"

section \<open>Faults and external collaborators\<close>

text \<open>
  A raised exception is a value. \<open>TimeoutExpired\<close> is
  \<^verbatim>\<open>subprocess.TimeoutExpired\<close>, \<open>Exception\<close> any other class derived from
  \<^verbatim>\<open>Exception\<close>; each carries the text that \<^verbatim>\<open>str(e)\<close> returns.
\<close>

datatype exn = TimeoutExpired string | Exception string

fun str_exn :: "exn \<Rightarrow> string" where
  "str_exn (TimeoutExpired m) = m"
| "str_exn (Exception m) = m"

fun is_TimeoutExpired :: "exn \<Rightarrow> bool" where
  "is_TimeoutExpired (TimeoutExpired m) = True"
| "is_TimeoutExpired (Exception m) = False"

text \<open>
  What \<^verbatim>\<open>requests\<close> returns: \<open>raise_for_status\<close> is the fault that
  \<^verbatim>\<open>response.raise_for_status()\<close> raises, if any; \<open>resp_text\<close> is \<^verbatim>\<open>response.text\<close>.
\<close>

record Response =
  raise_for_status :: "exn option"
  resp_text :: string

text \<open>
  What the HTML parser returns. A link element is seen through
  \<^verbatim>\<open>get_text(strip=True)\<close> and \<^verbatim>\<open>get("href")\<close>; a result block through
  \<^verbatim>\<open>find("a", class_="result__a")\<close> and \<^verbatim>\<open>find("a", class_="result__snippet")\<close>.
\<close>

record Anchor =
  get_text_strip :: string
  get_href :: "string option"

record ResultDiv =
  find_result_a :: "Anchor option"
  find_result_snippet :: "Anchor option"

record CompletedProcess =
  stdout :: string
  stderr :: string
  returncode :: int

text \<open>
  The world outside the executor: the files, by path, and the calls made to the
  network and to the process spawner so far.
\<close>

datatype effect =
    HttpPost string string
  | SubprocessRun string string
  | WriteText string string

type_synonym files = "string \<rightharpoonup> string"

record world =
  fs :: files
  calls :: "effect list"

text \<open>
  The collaborators, as parameters: the validating constructors of the four input
  structures and the rendering of a timeout (both from the schemas), the HTTP client,
  the HTML parser, the process spawner (which may change the files, whatever its
  outcome) and the faults of the file system (\<open>write_text_fault\<close> gives the fault of
  a write and the files it leaves behind; \<open>None\<close> when the write goes through).
\<close>

record 't env =
  new_SearchWebInput :: "raw \<Rightarrow> exn + SearchWebInput"
  new_RunCodeInput :: "raw \<Rightarrow> exn + 't RunCodeInput"
  new_WriteFileInput :: "raw \<Rightarrow> exn + WriteFileInput"
  new_FinishInput :: "raw \<Rightarrow> exn + FinishInput"
  str_timeout :: "'t \<Rightarrow> string"
  requests_post :: "string \<Rightarrow> string \<Rightarrow> exn + Response"
  find_all_result :: "string \<Rightarrow> exn + ResultDiv list"
  subprocess_run :: "files \<Rightarrow> string \<Rightarrow> 't \<Rightarrow> string \<Rightarrow> (exn + CompletedProcess) \<times> files"
  write_text_fault :: "files \<Rightarrow> string \<Rightarrow> string \<Rightarrow> (exn \<times> files) option"

record ActionExecutor =
  output_dir :: PurePath

section \<open>The handlers\<close>

text \<open>
  \<^verbatim>\<open>ActionResult(action=a, success=False, error=msg)\<close>, the form of every failure
  result in the file.
\<close>

definition failure :: "ActionType \<Rightarrow> string \<Rightarrow> ActionResult" where
  "failure a msg =
     \<lparr>action = a, success = False, output_value = PNone, error = Some msg, metadata = None\<rparr>"

subsection \<open>\<^verbatim>\<open>_search_web\<close>\<close>

definition search_record :: "Anchor \<Rightarrow> Anchor option \<Rightarrow> pyval" where
  "search_record title_elem snippet_elem =
     PDict [(''title'', PStr (get_text_strip title_elem)),
            (''url'', PStr (case get_href title_elem of None \<Rightarrow> [] | Some h \<Rightarrow> h)),
            (''snippet'', PStr (case snippet_elem of None \<Rightarrow> [] | Some s \<Rightarrow> get_text_strip s))]"

text \<open>The \<^verbatim>\<open>for\<close> loop over the sliced blocks, appending to \<^verbatim>\<open>results\<close>.\<close>

fun search_loop :: "ResultDiv list \<Rightarrow> pyval list \<Rightarrow> pyval list" where
  "search_loop [] results = results"
| "search_loop (result_div # rest) results =
     (case find_result_a result_div of
        None \<Rightarrow> search_loop rest results
      | Some title_elem \<Rightarrow>
          search_loop rest
            (results @ [search_record title_elem (find_result_snippet result_div)]))"

definition search_url :: string where
  "search_url = ''https://html.duckduckgo.com/html/''"

text \<open>The body of the \<^verbatim>\<open>try\<close> block: \<open>Inl\<close> is the fault that leaves it.\<close>

definition search_web_try :: "'t env \<Rightarrow> world \<Rightarrow> raw \<Rightarrow> (exn + ActionResult) \<times> world" where
  "search_web_try env w input_data =
     (case new_SearchWebInput env input_data of
        Inl e \<Rightarrow> (Inl e, w)
      | Inr search_input \<Rightarrow>
          (let w1 = w\<lparr>calls := calls w @ [HttpPost search_url (query search_input)]\<rparr>
           in case requests_post env search_url (query search_input) of
                Inl e \<Rightarrow> (Inl e, w1)
              | Inr response \<Rightarrow>
                  (case raise_for_status response of
                     Some e \<Rightarrow> (Inl e, w1)
                   | None \<Rightarrow>
                       (case find_all_result env (resp_text response) of
                          Inl e \<Rightarrow> (Inl e, w1)
                        | Inr divs \<Rightarrow>
                            (let results =
                                   search_loop
                                     (py_slice_upto divs (num_results search_input)) []
                             in if results = [] then
                                  (Inr (failure SEARCH_WEB ''No search results found''), w1)
                                else
                                  (Inr \<lparr>action = SEARCH_WEB, success = True,
                                        output_value = PList results, error = None,
                                        metadata =
                                          Some [(''query'', PStr (query search_input)),
                                                (''num_results'',
                                                 PInt (int (length results)))]\<rparr>,
                                   w1))))))"

definition search_web ::
  "'t env \<Rightarrow> ActionExecutor \<Rightarrow> world \<Rightarrow> raw \<Rightarrow> (exn + ActionResult) \<times> world" where
  "search_web env self w input_data =
     (case search_web_try env w input_data of
        (Inr r, w') \<Rightarrow> (Inr r, w')
      | (Inl e, w') \<Rightarrow> (Inr (failure SEARCH_WEB (''Search failed: '' @ str_exn e)), w'))"

subsection \<open>\<^verbatim>\<open>_run_code\<close>\<close>

definition no_output :: string where
  "no_output = ''Code executed successfully (no output)''"

text \<open>
  The \<^verbatim>\<open>try\<close> block. The first component is the local variable
  \<^verbatim>\<open>code_input\<close> when the block is left: \<open>None\<close> while it is not yet bound.
\<close>

definition run_code_try ::
  "'t env \<Rightarrow> ActionExecutor \<Rightarrow> world \<Rightarrow> raw
     \<Rightarrow> 't RunCodeInput option \<times> (exn + ActionResult) \<times> world" where
  "run_code_try env self w input_data =
     (case new_RunCodeInput env input_data of
        Inl e \<Rightarrow> (None, Inl e, w)
      | Inr code_input \<Rightarrow>
          (let cwd = str_path (output_dir self);
               w1 = w\<lparr>calls := calls w @ [SubprocessRun (code code_input) cwd]\<rparr>
           in case subprocess_run env (fs w) (code code_input) (timeout code_input) cwd of
                (Inl e, fs') \<Rightarrow> (Some code_input, Inl e, w1\<lparr>fs := fs'\<rparr>)
              | (Inr result, fs') \<Rightarrow>
                  (let out = (if stderr result \<noteq> []
                              then stdout result @ [CHR 0x0A] @ ''[stderr]: '' @ stderr result
                              else stdout result);
                       ok = (returncode result = 0)
                   in (Some code_input,
                       Inr \<lparr>action = RUN_CODE, success = ok,
                            output_value = PStr (if out \<noteq> [] then strip out else no_output),
                            error = (if ok then None
                                     else Some (''Exit code '' @ str_int (returncode result))),
                            metadata =
                              Some [(''exit_code'', PInt (returncode result)),
                                    (''execution_time'', PStr ''N/A'')]\<rparr>,
                       w1\<lparr>fs := fs'\<rparr>))))"

text \<open>
  What reading the unbound local \<^verbatim>\<open>code_input\<close> raises (the text of CPython 3.11
  and later).
\<close>

definition unbound_code_input :: exn where
  "unbound_code_input =
     Exception (''cannot access local variable '' @ [CHR 0x27] @ ''code_input'' @ [CHR 0x27]
                @ '' where it is not associated with a value'')"

text \<open>
  The two \<^verbatim>\<open>except\<close> clauses. A fault raised inside a clause leaves the handler:
  the second clause does not catch it.
\<close>

definition run_code ::
  "'t env \<Rightarrow> ActionExecutor \<Rightarrow> world \<Rightarrow> raw \<Rightarrow> (exn + ActionResult) \<times> world" where
  "run_code env self w input_data =
     (case run_code_try env self w input_data of
        (code_input, Inr r, w') \<Rightarrow> (Inr r, w')
      | (code_input, Inl e, w') \<Rightarrow>
          (case e of
             TimeoutExpired m \<Rightarrow>
               (case code_input of
                  None \<Rightarrow> (Inl unbound_code_input, w')
                | Some ci \<Rightarrow>
                    (Inr (failure RUN_CODE
                            (''Code execution timed out after '' @ str_timeout env (timeout ci)
                             @ '' seconds'')),
                     w'))
           | Exception m \<Rightarrow>
               (Inr (failure RUN_CODE (''Execution failed: '' @ str_exn e)), w')))"

subsection \<open>\<^verbatim>\<open>_write_file\<close>\<close>

definition write_file_try ::
  "'t env \<Rightarrow> ActionExecutor \<Rightarrow> world \<Rightarrow> raw \<Rightarrow> (exn + ActionResult) \<times> world" where
  "write_file_try env self w input_data =
     (case new_WriteFileInput env input_data of
        Inl e \<Rightarrow> (Inl e, w)
      | Inr write_input \<Rightarrow>
          (let safe_filename = path_name (Path (filename write_input));
               filepath = joinpath (output_dir self) safe_filename;
               w1 = w\<lparr>calls := calls w
                               @ [WriteText (str_path filepath) (content write_input)]\<rparr>
           in case write_text_fault env (fs w) (str_path filepath) (content write_input) of
                Some (e, fs') \<Rightarrow> (Inl e, w1\<lparr>fs := fs'\<rparr>)
              | None \<Rightarrow>
                  (Inr \<lparr>action = WRITE_FILE, success = True,
                        output_value =
                          PStr (''File written successfully: '' @ str_path filepath),
                        error = None,
                        metadata =
                          Some [(''filepath'', PStr (str_path filepath)),
                                (''size_bytes'',
                                 PInt (int (utf8_len (content write_input))))]\<rparr>,
                   w1\<lparr>fs := (fs w)(str_path filepath \<mapsto> content write_input)\<rparr>)))"

definition write_file ::
  "'t env \<Rightarrow> ActionExecutor \<Rightarrow> world \<Rightarrow> raw \<Rightarrow> (exn + ActionResult) \<times> world" where
  "write_file env self w input_data =
     (case write_file_try env self w input_data of
        (Inr r, w') \<Rightarrow> (Inr r, w')
      | (Inl e, w') \<Rightarrow> (Inr (failure WRITE_FILE (''File write failed: '' @ str_exn e)), w'))"

subsection \<open>\<^verbatim>\<open>_finish\<close>\<close>

definition finish_try :: "'t env \<Rightarrow> world \<Rightarrow> raw \<Rightarrow> (exn + ActionResult) \<times> world" where
  "finish_try env w input_data =
     (case new_FinishInput env input_data of
        Inl e \<Rightarrow> (Inl e, w)
      | Inr finish_input \<Rightarrow>
          (Inr \<lparr>action = FINISH, success = True,
                output_value =
                  PDict [(''summary'', PStr (summary finish_input)),
                         (''artifacts'', PList (map PStr (artifacts finish_input)))],
                error = None,
                metadata = Some [(''completed'', PBool True)]\<rparr>,
           w))"

definition finish ::
  "'t env \<Rightarrow> ActionExecutor \<Rightarrow> world \<Rightarrow> raw \<Rightarrow> (exn + ActionResult) \<times> world" where
  "finish env self w input_data =
     (case finish_try env w input_data of
        (Inr r, w') \<Rightarrow> (Inr r, w')
      | (Inl e, w') \<Rightarrow> (Inr (failure FINISH (''Finish action failed: '' @ str_exn e)), w'))"

section \<open>\<^verbatim>\<open>execute\<close>\<close>

text \<open>The dispatch table, and \<^verbatim>\<open>handlers.get(action_type)\<close>.\<close>

fun handlers ::
  "ActionType
     \<Rightarrow> ('t env \<Rightarrow> ActionExecutor \<Rightarrow> world \<Rightarrow> raw \<Rightarrow> (exn + ActionResult) \<times> world) option"
  where
  "handlers SEARCH_WEB = Some search_web"
| "handlers RUN_CODE = Some run_code"
| "handlers WRITE_FILE = Some write_file"
| "handlers FINISH = Some finish"
| "handlers (UNKNOWN ident) = None"

definition execute ::
  "'t env \<Rightarrow> ActionExecutor \<Rightarrow> world \<Rightarrow> ActionType \<Rightarrow> raw \<Rightarrow> (exn + ActionResult) \<times> world"
  where
  "execute env self w action_type input_data =
     (case handlers action_type of
        None \<Rightarrow>
          (Inr (failure action_type
                  (''Unknown action type: '' @ format_ActionType action_type)),
           w)
      | Some handler \<Rightarrow>
          (case handler env self w input_data of
             (Inr r, w') \<Rightarrow> (Inr r, w')
           | (Inl e, w') \<Rightarrow>
               (Inr (failure action_type (''Execution error: '' @ str_exn e)), w')))"

text \<open>
  The fault, if any, that leaves the \<^verbatim>\<open>try\<close> block of the handler of a kind: the
  first fault raised by validation or by a collaborator.
\<close>

fun raised :: "'t env \<Rightarrow> ActionExecutor \<Rightarrow> world \<Rightarrow> ActionType \<Rightarrow> raw \<Rightarrow> exn option" where
  "raised env self w SEARCH_WEB input_data =
     (case fst (search_web_try env w input_data) of Inl e \<Rightarrow> Some e | Inr r \<Rightarrow> None)"
| "raised env self w RUN_CODE input_data =
     (case fst (snd (run_code_try env self w input_data)) of Inl e \<Rightarrow> Some e | Inr r \<Rightarrow> None)"
| "raised env self w WRITE_FILE input_data =
     (case fst (write_file_try env self w input_data) of Inl e \<Rightarrow> Some e | Inr r \<Rightarrow> None)"
| "raised env self w FINISH input_data =
     (case fst (finish_try env w input_data) of Inl e \<Rightarrow> Some e | Inr r \<Rightarrow> None)"
| "raised env self w (UNKNOWN ident) input_data = None"

section \<open>Notions used by the properties\<close>

text \<open>
  The envelope invariant of a result: no error on success, a non-empty error message
  otherwise.
\<close>

definition envelope_ok :: "ActionResult \<Rightarrow> bool" where
  "envelope_ok r =
     (if success r then error r = None
      else (case error r of None \<Rightarrow> False | Some m \<Rightarrow> m \<noteq> []))"

text \<open>The record a result block yields: none when it has no title link.\<close>

definition block_record :: "ResultDiv \<Rightarrow> pyval option" where
  "block_record d =
     (case find_result_a d of
        None \<Rightarrow> None
      | Some title_elem \<Rightarrow> Some (search_record title_elem (find_result_snippet d)))"

text \<open>A text field of a record of the result list, empty when it is not there.\<close>

fun record_field :: "string \<Rightarrow> pyval \<Rightarrow> string" where
  "record_field k (PDict kvs) = (case map_of kvs k of Some (PStr s) \<Rightarrow> s | _ \<Rightarrow> [])"
| "record_field k v = []"

text \<open>
  The limit as the specification words it: blocks lacking a title link are skipped and
  do not count toward \<open>num_results\<close>, so the records are those of the first
  \<open>num_results\<close> blocks that have a title link.
\<close>

definition spec_search_records :: "ResultDiv list \<Rightarrow> int \<Rightarrow> pyval list" where
  "spec_search_records divs n = take (nat n) (List.map_filter block_record divs)"

text \<open>
  How a fault \<open>e\<close> that left the \<^verbatim>\<open>try\<close> block of a handler shows in the result
  \<open>r\<close> of \<^verbatim>\<open>execute\<close>: a failure whose message embeds the description of \<open>e\<close>.
  The exception is a \<open>TimeoutExpired\<close> in \<^verbatim>\<open>_run_code\<close>, whose clause formats the
  timeout of the validated input and not the description (and, were \<^verbatim>\<open>code_input\<close>
  unbound, raises in turn, so that the boundary of \<^verbatim>\<open>execute\<close> reports that fault).
\<close>

definition caught :: "'t env \<Rightarrow> ActionType \<Rightarrow> raw \<Rightarrow> exn \<Rightarrow> ActionResult \<Rightarrow> bool" where
  "caught env action_type input_data e r =
     (success r = False \<and>
      (\<exists>m. error r = Some m \<and> m \<noteq> [] \<and>
         (if action_type = RUN_CODE \<and> is_TimeoutExpired e then
            (case new_RunCodeInput env input_data of
               Inl v \<Rightarrow> m = ''Execution error: '' @ str_exn unbound_code_input
             | Inr code_input \<Rightarrow>
                 m = ''Code execution timed out after '' @ str_timeout env (timeout code_input)
                     @ '' seconds'')
          else sublist (str_exn e) m)))"

subsection \<open>A concrete environment\<close>

text \<open>
  Validating constructors that read the fields of each input structure from the
  parameter mapping and fail when one is missing or of the wrong shape; a search page
  with the given result blocks; a child process with the given outcome; a file system
  on which every write goes through.
\<close>

definition example_SearchWebInput :: "raw \<Rightarrow> exn + SearchWebInput" where
  "example_SearchWebInput d =
     (case (d ''query'', d ''num_results'') of
        (Some (PStr q), Some (PInt n)) \<Rightarrow> Inr \<lparr>query = q, num_results = n\<rparr>
      | _ \<Rightarrow> Inl (Exception ''validation error for SearchWebInput''))"

definition example_RunCodeInput :: "raw \<Rightarrow> exn + int RunCodeInput" where
  "example_RunCodeInput d =
     (case (d ''code'', d ''timeout'') of
        (Some (PStr c), Some (PInt t)) \<Rightarrow> Inr \<lparr>code = c, timeout = t\<rparr>
      | _ \<Rightarrow> Inl (Exception ''validation error for RunCodeInput''))"

definition example_WriteFileInput :: "raw \<Rightarrow> exn + WriteFileInput" where
  "example_WriteFileInput d =
     (case (d ''filename'', d ''content'') of
        (Some (PStr f), Some (PStr c)) \<Rightarrow> Inr \<lparr>filename = f, content = c\<rparr>
      | _ \<Rightarrow> Inl (Exception ''validation error for WriteFileInput''))"

fun str_items :: "pyval list \<Rightarrow> string list option" where
  "str_items [] = Some []"
| "str_items (PStr s # vs) = (case str_items vs of None \<Rightarrow> None | Some ss \<Rightarrow> Some (s # ss))"
| "str_items (v # vs) = None"

definition example_FinishInput :: "raw \<Rightarrow> exn + FinishInput" where
  "example_FinishInput d =
     (case (d ''summary'', d ''artifacts'') of
        (Some (PStr s), Some (PList vs)) \<Rightarrow>
          (case str_items vs of
             Some ss \<Rightarrow> Inr \<lparr>summary = s, artifacts = ss\<rparr>
           | None \<Rightarrow> Inl (Exception ''validation error for FinishInput''))
      | _ \<Rightarrow> Inl (Exception ''validation error for FinishInput''))"

definition example_env :: "ResultDiv list \<Rightarrow> exn + CompletedProcess \<Rightarrow> int env" where
  "example_env divs proc =
     \<lparr>new_SearchWebInput = example_SearchWebInput,
      new_RunCodeInput = example_RunCodeInput,
      new_WriteFileInput = example_WriteFileInput,
      new_FinishInput = example_FinishInput,
      str_timeout = str_int,
      requests_post = (\<lambda>url q. Inr \<lparr>raise_for_status = None, resp_text = ''<html></html>''\<rparr>),
      find_all_result = (\<lambda>page. Inr divs),
      subprocess_run = (\<lambda>files c t cwd. (proc, files)),
      write_text_fault = (\<lambda>files p c. None)\<rparr>"

definition example_executor :: ActionExecutor where
  "example_executor = \<lparr>output_dir = Path ''./output''\<rparr>"

definition empty_world :: world where
  "empty_world = \<lparr>fs = Map.empty, calls = []\<rparr>"

definition titled :: "string \<Rightarrow> string \<Rightarrow> ResultDiv" where
  "titled t u =
     \<lparr>find_result_a = Some \<lparr>get_text_strip = t, get_href = Some u\<rparr>,
      find_result_snippet = None\<rparr>"

definition untitled :: ResultDiv where
  "untitled = \<lparr>find_result_a = None, find_result_snippet = None\<rparr>"

text \<open>A script that outlives its timeout of one second, and what the spawner raises.\<close>

definition timeout_description :: string where
  "timeout_description =
     ''Command '['/usr/bin/python3', '-c', 'import time; time.sleep(5)']' timed out after 1 seconds''"

definition sleeping_input :: raw where
  "sleeping_input =
     [''code'' \<mapsto> PStr ''import time; time.sleep(5)'', ''timeout'' \<mapsto> PInt 1]"

text \<open>Inputs and search pages used to run the handlers.\<close>

definition search_input_3 :: raw where
  "search_input_3 = [''query'' \<mapsto> PStr ''isabelle'', ''num_results'' \<mapsto> PInt 3]"

definition five_blocks :: "ResultDiv list" where
  "five_blocks =
     [titled ''A'' ''http://a'', titled ''B'' ''http://b'', titled ''C'' ''http://c'',
      titled ''D'' ''http://d'', titled ''E'' ''http://e'']"

definition gap_blocks :: "ResultDiv list" where
  "gap_blocks =
     [untitled, titled ''A'' ''http://a'', titled ''B'' ''http://b'', titled ''C'' ''http://c'']"

definition link_record :: "string \<Rightarrow> string \<Rightarrow> pyval" where
  "link_record t u = PDict [(''title'', PStr t), (''url'', PStr u), (''snippet'', PStr [])]"

definition traversal_input :: raw where
  "traversal_input =
     [''filename'' \<mapsto> PStr ''../../secret.txt'', ''content'' \<mapsto> PStr ''x'']"

definition exit_input :: raw where
  "exit_input = [''code'' \<mapsto> PStr ''import sys; sys.exit(1)'', ''timeout'' \<mapsto> PInt 1]"

definition blank_line_input :: raw where
  "blank_line_input = [''code'' \<mapsto> PStr ''print()'', ''timeout'' \<mapsto> PInt 1]"

text \<open>
  A file system on which the output directory and its parent are directories: a write to
  either raises \<^verbatim>\<open>IsADirectoryError\<close> and changes no file.
\<close>

definition is_a_directory :: "string \<Rightarrow> exn" where
  "is_a_directory p =
     Exception (''[Errno 21] Is a directory: '' @ [CHR 0x27] @ p @ [CHR 0x27])"

definition directory_env :: "int env" where
  "directory_env =
     (example_env [] (Inl (Exception ''unused'')))
       \<lparr>write_text_fault :=
          (\<lambda>files p c. if p = ''output'' \<or> p = ''output/..''
                         then Some (is_a_directory p, files) else None)\<rparr>"

definition parent_input :: raw where
  "parent_input = [''filename'' \<mapsto> PStr ''..'', ''content'' \<mapsto> PStr ''x'']"

definition empty_name_input :: raw where
  "empty_name_input = [''filename'' \<mapsto> PStr [], ''content'' \<mapsto> PStr ''x'']"

section \<open>Every handler returns a well-formed result\<close>

lemma search_web_result:
  "\<exists>r w'. search_web env self w inp = (Inr r, w') \<and> action r = SEARCH_WEB \<and> envelope_ok r"
  by (auto simp: search_web_def search_web_try_def Let_def envelope_ok_def failure_def
           split: sum.splits option.splits prod.splits)

lemma write_file_result:
  "\<exists>r w'. write_file env self w inp = (Inr r, w') \<and> action r = WRITE_FILE \<and> envelope_ok r"
  by (auto simp: write_file_def write_file_try_def Let_def envelope_ok_def failure_def
           split: sum.splits option.splits prod.splits)

lemma finish_result:
  "\<exists>r w'. finish env self w inp = (Inr r, w') \<and> action r = FINISH \<and> envelope_ok r"
  by (auto simp: finish_def finish_try_def envelope_ok_def failure_def
           split: sum.splits prod.splits)

text \<open>
  \<^verbatim>\<open>_run_code\<close> returns a result too, unless the timeout clause runs while
  \<^verbatim>\<open>code_input\<close> is unbound; that fault reaches the boundary of \<^verbatim>\<open>execute\<close>.
\<close>

lemma run_code_result:
  "(\<exists>r w'. run_code env self w inp = (Inr r, w') \<and> action r = RUN_CODE \<and> envelope_ok r)
   \<or> (\<exists>w'. run_code env self w inp = (Inl unbound_code_input, w'))"
  by (auto simp: run_code_def run_code_try_def Let_def envelope_ok_def failure_def
           split: sum.splits option.splits prod.splits exn.splits)

lemma execute_result:
  "\<exists>r w'. execute env self w k inp = (Inr r, w') \<and> action r = k \<and> envelope_ok r"
proof (cases k)
  case SEARCH_WEB
  then show ?thesis
    using search_web_result [of env self w inp] by (auto simp: execute_def)
next
  case RUN_CODE
  then show ?thesis
    using run_code_result [of env self w inp]
    by (auto simp: execute_def envelope_ok_def failure_def)
next
  case WRITE_FILE
  then show ?thesis
    using write_file_result [of env self w inp] by (auto simp: execute_def)
next
  case FINISH
  then show ?thesis
    using finish_result [of env self w inp] by (auto simp: execute_def)
next
  case (UNKNOWN ident)
  then show ?thesis
    by (simp add: execute_def envelope_ok_def failure_def)
qed

section \<open>Evaluation on concrete inputs\<close>

lemma str_int_0: "str_int 0 = ''0''"
  by code_simp

lemma str_int_1: "str_int 1 = ''1''"
  by code_simp

lemmas eval_defs =
  execute_def search_web_def search_web_try_def run_code_def run_code_try_def
  write_file_def write_file_try_def finish_def finish_try_def failure_def
  example_env_def example_SearchWebInput_def example_RunCodeInput_def
  example_WriteFileInput_def example_FinishInput_def example_executor_def empty_world_def
  Let_def str_int_0 str_int_1 strip_def py_isspace_def
  Path_def path_name_def joinpath_def str_path_def posix_root_def utf8_len_def
  py_slice_upto_def search_url_def no_output_def search_record_def titled_def untitled_def

section \<open>The fault boundary\<close>

lemma failure_embeds:
  "p \<noteq> [] \<Longrightarrow>
   success (failure a (p @ d)) = False \<and>
   (\<exists>m. error (failure a (p @ d)) = Some m \<and> m \<noteq> [] \<and> sublist d m)"
  by (simp add: failure_def)

lemma search_web_catches:
  "fst (search_web_try env w inp) = Inl e \<Longrightarrow>
   fst (search_web env self w inp) = Inr (failure SEARCH_WEB (''Search failed: '' @ str_exn e))"
  by (cases "search_web_try env w inp") (auto simp: search_web_def)

lemma write_file_catches:
  "fst (write_file_try env self w inp) = Inl e \<Longrightarrow>
   fst (write_file env self w inp) = Inr (failure WRITE_FILE (''File write failed: '' @ str_exn e))"
  by (cases "write_file_try env self w inp") (auto simp: write_file_def)

lemma finish_catches:
  "fst (finish_try env w inp) = Inl e \<Longrightarrow>
   fst (finish env self w inp) = Inr (failure FINISH (''Finish action failed: '' @ str_exn e))"
  by (cases "finish_try env w inp") (auto simp: finish_def)

lemma run_code_catches_other:
  "fst (snd (run_code_try env self w inp)) = Inl e \<Longrightarrow> \<not> is_TimeoutExpired e \<Longrightarrow>
   fst (run_code env self w inp) = Inr (failure RUN_CODE (''Execution failed: '' @ str_exn e))"
  by (cases e) (auto simp: run_code_def split: prod.splits)

lemma run_code_catches_timeout:
  "fst (snd (run_code_try env self w inp)) = Inl e \<Longrightarrow> is_TimeoutExpired e \<Longrightarrow>
   fst (run_code env self w inp) =
     (case new_RunCodeInput env inp of
        Inl v \<Rightarrow> Inl unbound_code_input
      | Inr code_input \<Rightarrow>
          Inr (failure RUN_CODE
                 (''Code execution timed out after '' @ str_timeout env (timeout code_input)
                  @ '' seconds'')))"
  by (cases e)
     (auto simp: run_code_def run_code_try_def Let_def split: prod.splits sum.splits)

lemma execute_of_handler:
  "handlers k = Some h \<Longrightarrow>
   fst (execute env self w k inp) =
     (case fst (h env self w inp) of
        Inr r \<Rightarrow> Inr r
      | Inl e \<Rightarrow> Inr (failure k (''Execution error: '' @ str_exn e)))"
  by (simp add: execute_def split: prod.splits sum.splits)

text \<open>
  C1, as the claim states it, fails: when the child process of \<^verbatim>\<open>RUN_CODE\<close> times
  out, the fault is caught, but the error message is the fixed timeout text and does not
  embed the description of the fault.
\<close>

theorem timeout_message_counterexample:
  "raised (example_env [] (Inl (TimeoutExpired timeout_description))) example_executor empty_world
      RUN_CODE sleeping_input = Some (TimeoutExpired timeout_description)
   \<and> fst (execute (example_env [] (Inl (TimeoutExpired timeout_description))) example_executor
             empty_world RUN_CODE sleeping_input)
       = Inr (failure RUN_CODE ''Code execution timed out after 1 seconds'')
   \<and> \<not> sublist (str_exn (TimeoutExpired timeout_description))
              ''Code execution timed out after 1 seconds''"
proof -
  have "\<not> sublist timeout_description ''Code execution timed out after 1 seconds''"
    unfolding timeout_description_def by code_simp
  then show ?thesis
    by (simp add: eval_defs sleeping_input_def)
qed

text \<open>
  C1 (amended): for every action kind and every raw parameter mapping, \<^verbatim>\<open>execute\<close>
  returns an \<open>ActionResult\<close> and never raises. Any fault raised during validation or
  execution of a handler is caught and converted into a result with success=false and a
  non-empty error message; the message embeds the fault's description, except for a
  \<open>TimeoutExpired\<close> in \<^verbatim>\<open>RUN_CODE\<close>, where the message of a timed-out child process
  is the timeout text stating the timeout of the validated input.
\<close>

theorem execute_catches_faults:
  "\<exists>r w'. execute env self w action_type input_data = (Inr r, w') \<and>
     (case raised env self w action_type input_data of
        None \<Rightarrow> True
      | Some e \<Rightarrow> caught env action_type input_data e r)"
proof -
  obtain r w' where ex: "execute env self w action_type input_data = (Inr r, w')"
    using execute_result [of env self w action_type input_data] by blast
  have "caught env action_type input_data e r"
    if e: "raised env self w action_type input_data = Some e" for e
  proof (cases action_type)
    case SEARCH_WEB
    with e have "fst (search_web_try env w input_data) = Inl e"
      by (simp split: sum.splits)
    from search_web_catches [OF this, of self] ex SEARCH_WEB
    have "r = failure SEARCH_WEB (''Search failed: '' @ str_exn e)"
      using execute_of_handler [of SEARCH_WEB search_web env self w input_data] by simp
    with failure_embeds [of "''Search failed: ''" SEARCH_WEB "str_exn e"] SEARCH_WEB
    show ?thesis by (simp add: caught_def)
  next
    case RUN_CODE
    with e have t: "fst (snd (run_code_try env self w input_data)) = Inl e"
      by (simp split: sum.splits)
    show ?thesis
    proof (cases "is_TimeoutExpired e")
      case False
      from run_code_catches_other [OF t False] ex RUN_CODE
      have "r = failure RUN_CODE (''Execution failed: '' @ str_exn e)"
        using execute_of_handler [of RUN_CODE run_code env self w input_data] by simp
      with failure_embeds [of "''Execution failed: ''" RUN_CODE "str_exn e"] RUN_CODE False
      show ?thesis by (simp add: caught_def)
    next
      case True
      from run_code_catches_timeout [OF t True] ex RUN_CODE True
      show ?thesis
        using execute_of_handler [of RUN_CODE run_code env self w input_data]
        by (auto simp: caught_def failure_def split: sum.splits)
    qed
  next
    case WRITE_FILE
    with e have "fst (write_file_try env self w input_data) = Inl e"
      by (simp split: sum.splits)
    from write_file_catches [OF this] ex WRITE_FILE
    have "r = failure WRITE_FILE (''File write failed: '' @ str_exn e)"
      using execute_of_handler [of WRITE_FILE write_file env self w input_data] by simp
    with failure_embeds [of "''File write failed: ''" WRITE_FILE "str_exn e"] WRITE_FILE
    show ?thesis by (simp add: caught_def)
  next
    case FINISH
    with e have "fst (finish_try env w input_data) = Inl e"
      by (simp split: sum.splits)
    from finish_catches [OF this, of self] ex FINISH
    have "r = failure FINISH (''Finish action failed: '' @ str_exn e)"
      using execute_of_handler [of FINISH finish env self w input_data] by simp
    with failure_embeds [of "''Finish action failed: ''" FINISH "str_exn e"] FINISH
    show ?thesis by (simp add: caught_def)
  next
    case (UNKNOWN ident)
    with e show ?thesis by simp
  qed
  with ex show ?thesis
    by (auto split: option.splits)
qed

text \<open>
  A payload missing a required field: the validation fault of \<^verbatim>\<open>WRITE_FILE\<close> becomes
  a failure result that embeds its description.
\<close>

theorem execute_catches_faults_witness:
  "raised (example_env [] (Inl (Exception ''unused''))) example_executor empty_world
      WRITE_FILE [''filename'' \<mapsto> PStr ''a.txt'']
     = Some (Exception ''validation error for WriteFileInput'')
   \<and> fst (execute (example_env [] (Inl (Exception ''unused''))) example_executor empty_world
             WRITE_FILE [''filename'' \<mapsto> PStr ''a.txt''])
       = Inr (failure WRITE_FILE ''File write failed: validation error for WriteFileInput'')"
  using execute_catches_faults [of "example_env [] (Inl (Exception ''unused''))" example_executor
          empty_world WRITE_FILE "[''filename'' \<mapsto> PStr ''a.txt'']"]
  by (simp add: eval_defs)

section \<open>The result envelope\<close>

text \<open>
  C2: every result returned by \<^verbatim>\<open>execute\<close>, for any kind and any input, satisfies
  the envelope invariant: the error is a non-empty message when success=false and is
  absent when success=true.
\<close>

theorem execute_envelope_invariant:
  "\<exists>r w'. execute env self w action_type input_data = (Inr r, w') \<and> envelope_ok r"
  using execute_result [of env self w action_type input_data] by blast

text \<open>
  C10: whatever kind and input are supplied, and whether the call succeeds or fails, the
  action field of the returned result is the requested action kind.
\<close>

theorem execute_action_field:
  "\<exists>r w'. execute env self w action_type input_data = (Inr r, w') \<and> action r = action_type"
  using execute_result [of env self w action_type input_data] by blast

section \<open>Unknown kinds\<close>

text \<open>
  C9: for every action kind that is not one of the four known kinds, the dispatch table
  has no handler, and \<^verbatim>\<open>execute\<close> returns at once a failure whose error message
  contains the identifier of the kind; the world (files and calls made) is unchanged.
\<close>

theorem execute_unknown_kind:
  fixes env :: "'t env"
  assumes "action_type \<noteq> SEARCH_WEB" and "action_type \<noteq> RUN_CODE"
      and "action_type \<noteq> WRITE_FILE" and "action_type \<noteq> FINISH"
  shows "(handlers action_type ::
            ('t env \<Rightarrow> ActionExecutor \<Rightarrow> world \<Rightarrow> raw \<Rightarrow> (exn + ActionResult) \<times> world) option) = None
         \<and> (\<exists>r m. execute env self w action_type input_data = (Inr r, w)
                \<and> action r = action_type \<and> success r = False \<and> error r = Some m
                \<and> sublist (format_ActionType action_type) m)"
proof -
  from assms obtain ident where k: "action_type = UNKNOWN ident"
    by (cases action_type) auto
  let ?r = "failure action_type (''Unknown action type: '' @ format_ActionType action_type)"
  have "execute env self w action_type input_data = (Inr ?r, w)"
    by (simp add: k execute_def)
  moreover have "action ?r = action_type"
    by (simp add: failure_def)
  moreover have "success ?r = False \<and>
      (\<exists>m. error ?r = Some m \<and> m \<noteq> [] \<and> sublist (format_ActionType action_type) m)"
    by (rule failure_embeds) simp
  moreover have "(handlers action_type ::
            ('t env \<Rightarrow> ActionExecutor \<Rightarrow> world \<Rightarrow> raw \<Rightarrow> (exn + ActionResult) \<times> world) option) = None"
    by (simp add: k)
  ultimately show ?thesis by blast
qed

theorem execute_unknown_kind_witness:
  "UNKNOWN ''delete_file'' \<noteq> SEARCH_WEB \<and> UNKNOWN ''delete_file'' \<noteq> RUN_CODE \<and>
   UNKNOWN ''delete_file'' \<noteq> WRITE_FILE \<and> UNKNOWN ''delete_file'' \<noteq> FINISH \<and>
   execute (example_env [] (Inl (Exception ''unused''))) example_executor empty_world
     (UNKNOWN ''delete_file'') [''filename'' \<mapsto> PStr ''a.txt'']
   = (Inr (failure (UNKNOWN ''delete_file'') ''Unknown action type: delete_file''), empty_world)"
  using execute_unknown_kind [of "UNKNOWN ''delete_file''" "example_env [] (Inl (Exception ''unused''))"
          example_executor empty_world "[''filename'' \<mapsto> PStr ''a.txt'']"]
  by (simp add: execute_def)

section \<open>\<^verbatim>\<open>SEARCH_WEB\<close>: the examined blocks and the empty result list\<close>

lemma search_loop_map_filter:
  "search_loop ds acc = acc @ List.map_filter block_record ds"
  by (induction ds arbitrary: acc)
     (auto simp: block_record_def split: option.splits)

lemma search_web_parsed:
  assumes "new_SearchWebInput env input_data = Inr search_input"
      and "requests_post env search_url (query search_input) = Inr response"
      and "raise_for_status response = None"
      and "find_all_result env (resp_text response) = Inr divs"
  shows "fst (execute env self w SEARCH_WEB input_data) =
           (let results = search_loop (py_slice_upto divs (num_results search_input)) []
            in if results = [] then Inr (failure SEARCH_WEB ''No search results found'')
               else Inr \<lparr>action = SEARCH_WEB, success = True, output_value = PList results,
                         error = None,
                         metadata = Some [(''query'', PStr (query search_input)),
                                          (''num_results'', PInt (int (length results)))]\<rparr>)"
  using assms by (simp add: execute_def search_web_def search_web_try_def Let_def)

lemma search_web_success_nonempty:
  "fst (search_web env self w inp) = Inr r \<Longrightarrow> success r \<Longrightarrow>
   \<exists>records. output_value r = PList records \<and> records \<noteq> []"
  by (auto simp: search_web_def search_web_try_def Let_def failure_def
           split: sum.splits option.splits prod.splits if_splits)

lemma length_map_filter_le: "length (List.map_filter f xs) \<le> length xs"
  by (induction xs) (auto split: option.splits)

lemma length_map_filter_all:
  "\<forall>x \<in> set xs. f x \<noteq> None \<Longrightarrow> length (List.map_filter f xs) = length xs"
  by (induction xs) (auto split: option.splits)

lemma map_filter_origin:
  "y \<in> set (List.map_filter f xs) \<Longrightarrow> \<exists>x \<in> set xs. f x = Some y"
  by (induction xs) (auto split: option.splits)

lemma block_record_fields:
  "block_record d = Some v \<Longrightarrow>
   \<exists>t. find_result_a d = Some t \<and> record_field ''title'' v = get_text_strip t
        \<and> record_field ''url'' v = (case get_href t of None \<Rightarrow> [] | Some h \<Rightarrow> h)"
  by (auto simp: block_record_def search_record_def split: option.splits)

text \<open>
  C3, as the claim states it, fails: the blocks are sliced to the first \<open>num_results\<close>
  before the title links are looked at, so a block without a title link uses up one of
  the places. With one such block ahead of three blocks with title links and
  \<open>num_results = 3\<close>, two records are returned, where the claim promises three.
\<close>

theorem skipped_block_counterexample:
  "fst (execute (example_env gap_blocks (Inl (Exception ''unused''))) example_executor
          empty_world SEARCH_WEB search_input_3)
     = Inr \<lparr>action = SEARCH_WEB, success = True,
            output_value = PList [link_record ''A'' ''http://a'', link_record ''B'' ''http://b''],
            error = None,
            metadata = Some [(''query'', PStr ''isabelle''), (''num_results'', PInt 2)]\<rparr>
   \<and> spec_search_records gap_blocks 3
       = [link_record ''A'' ''http://a'', link_record ''B'' ''http://b'',
          link_record ''C'' ''http://c'']"
  by (simp add: eval_defs search_input_3_def gap_blocks_def link_record_def
        spec_search_records_def block_record_def)

text \<open>
  C3 (amended): \<^verbatim>\<open>SEARCH_WEB\<close> examines exactly the first \<open>num_results\<close> result
  blocks of the parsed page and returns one record for each examined block that has a
  title link, in page order; a block lacking a title link is skipped and still counts
  toward the limit. So at most \<open>num_results\<close> records are returned, exactly as many as
  examined blocks when each of them has a title link (3 records for 5 such blocks and
  \<open>num_results = 3\<close>), and the title and url of each record are the stripped text and
  the href of a title link.
\<close>

theorem search_web_examines_first_blocks:
  assumes "new_SearchWebInput env input_data = Inr search_input"
      and "requests_post env search_url (query search_input) = Inr response"
      and "raise_for_status response = None"
      and "find_all_result env (resp_text response) = Inr divs"
  shows "let examined = py_slice_upto divs (num_results search_input);
             records = List.map_filter block_record examined
         in fst (execute env self w SEARCH_WEB input_data) =
              (if records = [] then Inr (failure SEARCH_WEB ''No search results found'')
               else Inr \<lparr>action = SEARCH_WEB, success = True, output_value = PList records,
                         error = None,
                         metadata = Some [(''query'', PStr (query search_input)),
                                          (''num_results'', PInt (int (length records)))]\<rparr>)
          \<and> (0 \<le> num_results search_input \<longrightarrow>
                examined = take (nat (num_results search_input)) divs
                \<and> length records \<le> nat (num_results search_input))
          \<and> length records \<le> length examined
          \<and> ((\<forall>d \<in> set examined. find_result_a d \<noteq> None) \<longrightarrow>
                length records = length examined)
          \<and> (\<forall>v \<in> set records. \<exists>d \<in> set examined. \<exists>t.
                find_result_a d = Some t
                \<and> record_field ''title'' v = get_text_strip t
                \<and> record_field ''url'' v = (case get_href t of None \<Rightarrow> [] | Some h \<Rightarrow> h))"
proof -
  define examined where "examined = py_slice_upto divs (num_results search_input)"
  define records where "records = List.map_filter block_record examined"
  have loop: "search_loop examined [] = records"
    by (simp add: search_loop_map_filter records_def)
  have res: "fst (execute env self w SEARCH_WEB input_data) =
              (if records = [] then Inr (failure SEARCH_WEB ''No search results found'')
               else Inr \<lparr>action = SEARCH_WEB, success = True, output_value = PList records,
                         error = None,
                         metadata = Some [(''query'', PStr (query search_input)),
                                          (''num_results'', PInt (int (length records)))]\<rparr>)"
    using search_web_parsed [OF assms, of self w] loop
    by (simp add: Let_def examined_def)
  have le: "length records \<le> length examined"
    unfolding records_def by (rule length_map_filter_le)
  have pre: "0 \<le> num_results search_input \<longrightarrow>
                examined = take (nat (num_results search_input)) divs
                \<and> length records \<le> nat (num_results search_input)"
  proof
    assume n: "0 \<le> num_results search_input"
    then have t: "examined = take (nat (num_results search_input)) divs"
      by (simp add: examined_def py_slice_upto_def)
    then have "length examined \<le> nat (num_results search_input)"
      by simp
    with le t show "examined = take (nat (num_results search_input)) divs
                \<and> length records \<le> nat (num_results search_input)"
      by linarith
  qed
  have all: "(\<forall>d \<in> set examined. find_result_a d \<noteq> None) \<longrightarrow>
                length records = length examined"
  proof
    assume "\<forall>d \<in> set examined. find_result_a d \<noteq> None"
    then have "\<forall>d \<in> set examined. block_record d \<noteq> None"
      by (auto simp: block_record_def split: option.splits)
    then show "length records = length examined"
      unfolding records_def by (rule length_map_filter_all)
  qed
  have fields: "\<forall>v \<in> set records. \<exists>d \<in> set examined. \<exists>t.
                find_result_a d = Some t
                \<and> record_field ''title'' v = get_text_strip t
                \<and> record_field ''url'' v = (case get_href t of None \<Rightarrow> [] | Some h \<Rightarrow> h)"
  proof
    fix v
    assume "v \<in> set records"
    then obtain d where d: "d \<in> set examined" and b: "block_record d = Some v"
      unfolding records_def using map_filter_origin by fastforce
    from block_record_fields [OF b] d
    show "\<exists>d \<in> set examined. \<exists>t.
                find_result_a d = Some t
                \<and> record_field ''title'' v = get_text_strip t
                \<and> record_field ''url'' v = (case get_href t of None \<Rightarrow> [] | Some h \<Rightarrow> h)"
      by blast
  qed
  from res pre le all fields show ?thesis
    unfolding Let_def examined_def [symmetric] records_def [symmetric] by blast
qed

theorem search_web_examines_first_blocks_witness:
  "length five_blocks = 5
   \<and> list_all (\<lambda>d. find_result_a d \<noteq> None) (take 3 five_blocks)
   \<and> fst (execute (example_env five_blocks (Inl (Exception ''unused''))) example_executor
          empty_world SEARCH_WEB search_input_3)
     = Inr \<lparr>action = SEARCH_WEB, success = True,
            output_value = PList [link_record ''A'' ''http://a'', link_record ''B'' ''http://b'',
                                  link_record ''C'' ''http://c''],
            error = None,
            metadata = Some [(''query'', PStr ''isabelle''), (''num_results'', PInt 3)]\<rparr>"
proof -
  let ?e = "example_env five_blocks (Inl (Exception ''unused''))"
  let ?si = "\<lparr>query = ''isabelle'', num_results = 3\<rparr>"
  let ?resp = "\<lparr>raise_for_status = None, resp_text = ''<html></html>''\<rparr>"
  have 1: "new_SearchWebInput ?e search_input_3 = Inr ?si"
    by (simp add: eval_defs search_input_3_def)
  have 2: "requests_post ?e search_url (query ?si) = Inr ?resp"
    by (simp add: eval_defs)
  have 3: "raise_for_status ?resp = None"
    by simp
  have 4: "find_all_result ?e (resp_text ?resp) = Inr five_blocks"
    by (simp add: eval_defs)
  show ?thesis
    using search_web_examines_first_blocks [OF 1 2 3 4, of example_executor empty_world]
    by (simp add: Let_def py_slice_upto_def five_blocks_def titled_def block_record_def
          search_record_def link_record_def)
qed

text \<open>
  C8: when the result list is empty after parsing, \<^verbatim>\<open>SEARCH_WEB\<close> returns
  success=false with the error \<^verbatim>\<open>No search results found\<close>; and a successful result
  never carries an empty list of records.
\<close>

theorem search_web_empty_is_failure:
  "(new_SearchWebInput env input_data = Inr search_input
      \<and> requests_post env search_url (query search_input) = Inr response
      \<and> raise_for_status response = None
      \<and> find_all_result env (resp_text response) = Inr divs
      \<and> search_loop (py_slice_upto divs (num_results search_input)) [] = []
    \<longrightarrow> fst (execute env self w SEARCH_WEB input_data)
          = Inr (failure SEARCH_WEB ''No search results found''))
   \<and> (\<forall>r. fst (execute env self w SEARCH_WEB input_data) = Inr r \<and> success r
          \<longrightarrow> (\<exists>records. output_value r = PList records \<and> records \<noteq> []))"
proof (intro conjI impI allI)
  assume "new_SearchWebInput env input_data = Inr search_input
      \<and> requests_post env search_url (query search_input) = Inr response
      \<and> raise_for_status response = None
      \<and> find_all_result env (resp_text response) = Inr divs
      \<and> search_loop (py_slice_upto divs (num_results search_input)) [] = []"
  then show "fst (execute env self w SEARCH_WEB input_data)
          = Inr (failure SEARCH_WEB ''No search results found'')"
    using search_web_parsed [of env input_data search_input response divs self w]
    by (simp add: Let_def)
next
  fix r
  assume a: "fst (execute env self w SEARCH_WEB input_data) = Inr r \<and> success r"
  obtain r' w' where h: "search_web env self w input_data = (Inr r', w')"
    using search_web_result [of env self w input_data] by blast
  with a have "r' = r"
    by (simp add: execute_def)
  with h a search_web_success_nonempty [of env self w input_data r]
  show "\<exists>records. output_value r = PList records \<and> records \<noteq> []"
    by simp
qed

theorem search_web_empty_is_failure_witness:
  "fst (execute (example_env [untitled, untitled] (Inl (Exception ''unused''))) example_executor
          empty_world SEARCH_WEB search_input_3)
     = Inr (failure SEARCH_WEB ''No search results found'')
   \<and> fst (execute (example_env [titled ''A'' ''http://a''] (Inl (Exception ''unused'')))
             example_executor empty_world SEARCH_WEB search_input_3)
       = Inr \<lparr>action = SEARCH_WEB, success = True,
              output_value = PList [link_record ''A'' ''http://a''], error = None,
              metadata = Some [(''query'', PStr ''isabelle''), (''num_results'', PInt 1)]\<rparr>"
proof -
  let ?e0 = "example_env [untitled, untitled] (Inl (Exception ''unused''))"
  let ?e1 = "example_env [titled ''A'' ''http://a''] (Inl (Exception ''unused''))"
  let ?si = "\<lparr>query = ''isabelle'', num_results = 3\<rparr>"
  let ?resp = "\<lparr>raise_for_status = None, resp_text = ''<html></html>''\<rparr>"
  have h0: "new_SearchWebInput ?e0 search_input_3 = Inr ?si
      \<and> requests_post ?e0 search_url (query ?si) = Inr ?resp
      \<and> raise_for_status ?resp = None
      \<and> find_all_result ?e0 (resp_text ?resp) = Inr [untitled, untitled]
      \<and> search_loop (py_slice_upto [untitled, untitled] (num_results ?si)) [] = []"
    by (simp add: eval_defs search_input_3_def)
  have a: "fst (execute ?e0 example_executor empty_world SEARCH_WEB search_input_3)
     = Inr (failure SEARCH_WEB ''No search results found'')"
    using search_web_empty_is_failure [of ?e0 search_input_3 ?si ?resp "[untitled, untitled]"
            example_executor empty_world] h0
    by blast
  have b: "fst (execute ?e1 example_executor empty_world SEARCH_WEB search_input_3)
       = Inr \<lparr>action = SEARCH_WEB, success = True,
              output_value = PList [link_record ''A'' ''http://a''], error = None,
              metadata = Some [(''query'', PStr ''isabelle''), (''num_results'', PInt 1)]\<rparr>"
    by (simp add: eval_defs search_input_3_def link_record_def)
  from a b show ?thesis by simp
qed

section \<open>\<^verbatim>\<open>RUN_CODE\<close>: exit code, timeout and output\<close>

text \<open>
  C7: on normal completion of the child process, success is true exactly when the exit
  code is 0; on a nonzero exit code the error message is \<^verbatim>\<open>Exit code\<close> followed by
  that code; in both cases the metadata holds the raw exit code.
\<close>

theorem run_code_exit_code:
  assumes "new_RunCodeInput env input_data = Inr code_input"
      and "subprocess_run env (fs w) (code code_input) (timeout code_input)
             (str_path (output_dir self)) = (Inr result, files')"
  shows "\<exists>r. fst (execute env self w RUN_CODE input_data) = Inr r
           \<and> success r = (returncode result = 0)
           \<and> error r = (if returncode result = 0 then None
                        else Some (''Exit code '' @ str_int (returncode result)))
           \<and> metadata r = Some [(''exit_code'', PInt (returncode result)),
                                 (''execution_time'', PStr ''N/A'')]"
  using assms by (simp add: execute_def run_code_def run_code_try_def Let_def)

theorem run_code_exit_code_witness:
  "fst (execute (example_env [] (Inr \<lparr>stdout = [], stderr = [], returncode = 1\<rparr>))
          example_executor empty_world RUN_CODE exit_input)
     = Inr \<lparr>action = RUN_CODE, success = False,
            output_value = PStr ''Code executed successfully (no output)'',
            error = Some ''Exit code 1'',
            metadata = Some [(''exit_code'', PInt 1), (''execution_time'', PStr ''N/A'')]\<rparr>"
proof -
  let ?cp = "\<lparr>stdout = [], stderr = [], returncode = 1\<rparr>"
  let ?e = "example_env [] (Inr ?cp)"
  let ?ci = "\<lparr>code = ''import sys; sys.exit(1)'', timeout = 1::int\<rparr>"
  have 1: "new_RunCodeInput ?e exit_input = Inr ?ci"
    by (simp add: eval_defs exit_input_def)
  have 2: "subprocess_run ?e (fs empty_world) (code ?ci) (timeout ?ci)
             (str_path (output_dir example_executor)) = (Inr ?cp, fs empty_world)"
    by (simp add: example_env_def)
  obtain r where r: "fst (execute ?e example_executor empty_world RUN_CODE exit_input) = Inr r"
      and s: "success r = (returncode ?cp = 0)"
      and e: "error r = (if returncode ?cp = 0 then None
                        else Some (''Exit code '' @ str_int (returncode ?cp)))"
      and m: "metadata r = Some [(''exit_code'', PInt (returncode ?cp)),
                                 (''execution_time'', PStr ''N/A'')]"
    using run_code_exit_code [OF 1 2] by blast
  have "fst (execute ?e example_executor empty_world RUN_CODE exit_input)
     = Inr \<lparr>action = RUN_CODE, success = False,
            output_value = PStr ''Code executed successfully (no output)'',
            error = Some ''Exit code 1'',
            metadata = Some [(''exit_code'', PInt 1), (''execution_time'', PStr ''N/A'')]\<rparr>"
    by (simp add: eval_defs exit_input_def)
  with r s e m show ?thesis by simp
qed

text \<open>
  C6: when the child process exceeds the timeout, \<^verbatim>\<open>code_input\<close> is bound when the
  timeout clause runs, and the result is a failure whose error message states the timeout
  of the validated input.
\<close>

theorem run_code_timeout:
  assumes "new_RunCodeInput env input_data = Inr code_input"
      and "subprocess_run env (fs w) (code code_input) (timeout code_input)
             (str_path (output_dir self)) = (Inl (TimeoutExpired m), files')"
  shows "fst (run_code_try env self w input_data) = Some code_input
         \<and> fst (execute env self w RUN_CODE input_data) =
             Inr (failure RUN_CODE
                    (''Code execution timed out after '' @ str_timeout env (timeout code_input)
                     @ '' seconds''))"
  using assms by (simp add: execute_def run_code_def run_code_try_def Let_def)

theorem run_code_timeout_witness:
  "fst (execute (example_env [] (Inl (TimeoutExpired timeout_description))) example_executor
          empty_world RUN_CODE sleeping_input)
     = Inr \<lparr>action = RUN_CODE, success = False, output_value = PNone,
            error = Some ''Code execution timed out after 1 seconds'', metadata = None\<rparr>"
proof -
  let ?e = "example_env [] (Inl (TimeoutExpired timeout_description))"
  let ?ci = "\<lparr>code = ''import time; time.sleep(5)'', timeout = 1::int\<rparr>"
  have 1: "new_RunCodeInput ?e sleeping_input = Inr ?ci"
    by (simp add: eval_defs sleeping_input_def)
  have 2: "subprocess_run ?e (fs empty_world) (code ?ci) (timeout ?ci)
             (str_path (output_dir example_executor))
           = (Inl (TimeoutExpired timeout_description), fs empty_world)"
    by (simp add: example_env_def)
  have 3: "str_timeout ?e (timeout ?ci) = ''1''"
    by (simp add: example_env_def str_int_1)
  show ?thesis
    using run_code_timeout [OF 1 2] 3 by (simp add: failure_def)
qed

text \<open>
  When the child process prints nothing at all, the output is the placeholder text.
\<close>

lemma run_code_no_output:
  assumes "new_RunCodeInput env input_data = Inr code_input"
      and "subprocess_run env (fs w) (code code_input) (timeout code_input)
             (str_path (output_dir self)) = (Inr result, files')"
      and "stdout result = []" and "stderr result = []"
  shows "\<exists>r. fst (execute env self w RUN_CODE input_data) = Inr r
           \<and> output_value r = PStr no_output"
  using assms by (simp add: execute_def run_code_def run_code_try_def Let_def)

text \<open>
  C4: the output of a successful \<^verbatim>\<open>RUN_CODE\<close> result is meant never to be empty.
  The placeholder is chosen on the output before it is stripped: a script that prints
  only a newline (\<^verbatim>\<open>print()\<close>) and exits with code 0 has a non-empty output,
  which \<^verbatim>\<open>strip()\<close> then empties, and the successful result carries the empty string.
\<close>

theorem run_code_blank_output:
  "fst (execute (example_env [] (Inr \<lparr>stdout = [CHR 0x0A], stderr = [], returncode = 0\<rparr>))
          example_executor empty_world RUN_CODE blank_line_input)
     = Inr \<lparr>action = RUN_CODE, success = True, output_value = PStr [], error = None,
            metadata = Some [(''exit_code'', PInt 0), (''execution_time'', PStr ''N/A'')]\<rparr>"
  by (simp add: eval_defs blank_line_input_def)

section \<open>\<^verbatim>\<open>WRITE_FILE\<close>: the base name\<close>

lemma split_str_nonempty: "split_str sep s \<noteq> []"
  by (induction s) (auto split: list.splits)

lemma split_str_no_sep: "p \<in> set (split_str sep s) \<Longrightarrow> sep \<notin> set p"
  by (induction s arbitrary: p) (auto split: list.splits if_splits)

lemma split_str_single: "sep \<notin> set s \<Longrightarrow> split_str sep s = [s]"
  by (induction s) auto

lemma path_name_cases:
  "path_name (Path s) = [] \<or> path_name (Path s) \<in> set (split_str CHR ''/'' s) \<and> path_name (Path s) \<noteq> ''.''"
proof (cases "parts (Path s) = []")
  case True
  then show ?thesis by (simp add: path_name_def)
next
  case False
  then have "last (parts (Path s)) \<in> set (parts (Path s))"
    by simp
  then show ?thesis
    using False by (auto simp: path_name_def Path_def)
qed

lemma path_name_no_sep: "CHR ''/'' \<notin> set (path_name (Path s))"
  using path_name_cases [of s] split_str_no_sep [of "path_name (Path s)" "CHR ''/''" s]
  by auto

lemma path_name_not_dot: "path_name (Path s) \<noteq> ''.''"
  using path_name_cases [of s] by auto

lemma joinpath_component:
  assumes "CHR ''/'' \<notin> set b" and "b \<noteq> ''.''"
  shows "joinpath p b = \<lparr>root = root p, parts = parts p @ (if b = [] then [] else [b])\<rparr>"
proof -
  have "split_str CHR ''/'' b = [b]"
    using assms(1) by (rule split_str_single)
  moreover have "posix_root b = []"
    using assms(1) by (cases b) (auto simp: posix_root_def)
  ultimately show ?thesis
    using assms(2) by (simp add: joinpath_def Path_def Let_def)
qed

text \<open>
  C5, as the claim states it, fails: a file name that validates need not lead to a
  written file. The base name of \<^verbatim>\<open>..\<close> is \<^verbatim>\<open>..\<close> and that of the empty name is
  empty, so the write is directed at the parent of the output directory or at the output
  directory itself, it raises, and the result has success=false.
\<close>

theorem write_to_directory_counterexample:
  "new_WriteFileInput directory_env parent_input = Inr \<lparr>filename = ''..'', content = ''x''\<rparr>
   \<and> execute directory_env example_executor empty_world WRITE_FILE parent_input
       = (Inr (failure WRITE_FILE
                 (''File write failed: '' @ str_exn (is_a_directory ''output/..''))),
          \<lparr>fs = Map.empty, calls = [WriteText ''output/..'' ''x'']\<rparr>)
   \<and> new_WriteFileInput directory_env empty_name_input = Inr \<lparr>filename = [], content = ''x''\<rparr>
   \<and> execute directory_env example_executor empty_world WRITE_FILE empty_name_input
       = (Inr (failure WRITE_FILE
                 (''File write failed: '' @ str_exn (is_a_directory ''output''))),
          \<lparr>fs = Map.empty, calls = [WriteText ''output'' ''x'']\<rparr>)"
  by (simp add: eval_defs directory_env_def parent_input_def empty_name_input_def
        is_a_directory_def)

text \<open>
  C5 (amended): for every \<^verbatim>\<open>WRITE_FILE\<close> call with valid input, the directory
  components of the file name are stripped unconditionally (the base name is empty or one
  of its components and has no separator) and the write is directed at the output
  directory extended by the base name. When the write goes through, the content is stored
  there and the result has success=true, with the path and the UTF-8 byte length of the
  content in its metadata; when it raises, the result has success=false and the error is
  \<^verbatim>\<open>File write failed:\<close> followed by the fault's description. For
  \<^verbatim>\<open>../../secret.txt\<close> with content \<^verbatim>\<open>x\<close> the file is \<^verbatim>\<open>secret.txt\<close> in the
  output directory and the size is 1.
\<close>

theorem write_file_strips_directories:
  assumes "new_WriteFileInput env input_data = Inr write_input"
  shows "let base = path_name (Path (filename write_input));
             filepath = joinpath (output_dir self) base;
             target = str_path filepath
         in CHR ''/'' \<notin> set base
          \<and> (base = [] \<or> base \<in> set (split_str CHR ''/'' (filename write_input)))
          \<and> filepath = \<lparr>root = root (output_dir self),
                         parts = parts (output_dir self) @ (if base = [] then [] else [base])\<rparr>
          \<and> execute env self w WRITE_FILE input_data =
               (case write_text_fault env (fs w) target (content write_input) of
                  None \<Rightarrow>
                    (Inr \<lparr>action = WRITE_FILE, success = True,
                          output_value = PStr (''File written successfully: '' @ target),
                          error = None,
                          metadata =
                            Some [(''filepath'', PStr target),
                                  (''size_bytes'',
                                   PInt (int (utf8_len (content write_input))))]\<rparr>,
                     \<lparr>fs = (fs w)(target \<mapsto> content write_input),
                      calls = calls w @ [WriteText target (content write_input)]\<rparr>)
                | Some (e, files') \<Rightarrow>
                    (Inr (failure WRITE_FILE (''File write failed: '' @ str_exn e)),
                     \<lparr>fs = files',
                      calls = calls w @ [WriteText target (content write_input)]\<rparr>))"
proof -
  define base where "base = path_name (Path (filename write_input))"
  define target where "target = str_path (joinpath (output_dir self) base)"
  have 1: "CHR ''/'' \<notin> set base"
    unfolding base_def by (rule path_name_no_sep)
  have 2: "base = [] \<or> base \<in> set (split_str CHR ''/'' (filename write_input))"
    using path_name_cases [of "filename write_input"] unfolding base_def by blast
  have 3: "joinpath (output_dir self) base =
             \<lparr>root = root (output_dir self),
              parts = parts (output_dir self) @ (if base = [] then [] else [base])\<rparr>"
    using 1 path_name_not_dot [of "filename write_input"]
    unfolding base_def by (rule joinpath_component)
  have 4: "execute env self w WRITE_FILE input_data =
               (case write_text_fault env (fs w) target (content write_input) of
                  None \<Rightarrow>
                    (Inr \<lparr>action = WRITE_FILE, success = True,
                          output_value = PStr (''File written successfully: '' @ target),
                          error = None,
                          metadata =
                            Some [(''filepath'', PStr target),
                                  (''size_bytes'',
                                   PInt (int (utf8_len (content write_input))))]\<rparr>,
                     \<lparr>fs = (fs w)(target \<mapsto> content write_input),
                      calls = calls w @ [WriteText target (content write_input)]\<rparr>)
                | Some (e, files') \<Rightarrow>
                    (Inr (failure WRITE_FILE (''File write failed: '' @ str_exn e)),
                     \<lparr>fs = files',
                      calls = calls w @ [WriteText target (content write_input)]\<rparr>))"
    using assms
    by (cases w)
       (simp add: execute_def write_file_def write_file_try_def Let_def base_def target_def
             split: option.splits)
  from 1 2 3 4 show ?thesis
    unfolding Let_def base_def [symmetric] target_def [symmetric] by blast
qed

theorem write_file_strips_directories_witness:
  "execute (example_env [] (Inl (Exception ''unused''))) example_executor empty_world
      WRITE_FILE traversal_input
   = (Inr \<lparr>action = WRITE_FILE, success = True,
           output_value = PStr ''File written successfully: output/secret.txt'',
           error = None,
           metadata = Some [(''filepath'', PStr ''output/secret.txt''),
                            (''size_bytes'', PInt 1)]\<rparr>,
      \<lparr>fs = [''output/secret.txt'' \<mapsto> ''x''],
       calls = [WriteText ''output/secret.txt'' ''x'']\<rparr>)"
proof -
  let ?e = "example_env [] (Inl (Exception ''unused''))"
  let ?wi = "\<lparr>filename = ''../../secret.txt'', content = ''x''\<rparr>"
  have 1: "new_WriteFileInput ?e traversal_input = Inr ?wi"
    by (simp add: eval_defs traversal_input_def)
  have 2: "write_text_fault ?e = (\<lambda>files p c. None)"
    by (simp add: example_env_def)
  have 3: "path_name (Path ''../../secret.txt'') = ''secret.txt''"
    by (simp add: Path_def path_name_def)
  have 4: "str_path (joinpath (output_dir example_executor) ''secret.txt'') = ''output/secret.txt''"
    by (simp add: eval_defs)
  show ?thesis
    using write_file_strips_directories [OF 1, of example_executor empty_world] 2 3 4
    by (simp add: Let_def utf8_len_def empty_world_def)
qed

end
